theory Spec2Isabelle
  imports Main
begin

section \<open>Saving and loading checkpoints: the data\<close>

text \<open>
  The notebook \<^verbatim>\<open>Part 6 - Saving and Loading Models\<close> saves a trained network as a
  dictionary and rebuilds it with \<^verbatim>\<open>load_checkpoint\<close>. A tensor is its size
  (\<^verbatim>\<open>torch.Size\<close>, a list of Python integers) and its stored numbers; the numbers are
  never inspected by the code verified here, so their type is the parameter \<open>'a\<close>. All
  tensors here are parameters of networks of the one class \<^verbatim>\<open>fc_model.Network\<close> and
  entries of state dicts saved from them, so they have one dtype; a conversion between
  dtypes is not modelled.
\<close>

record 'a tensor =
  shape :: "int list"
  storage :: 'a

text \<open>A state dict is an ordered dictionary from parameter name to tensor.\<close>

type_synonym 'a state_dict = "(string \<times> 'a tensor) list"

text \<open>
  \<^verbatim>\<open>nn.Linear\<close> as the notebook prints it (\<^verbatim>\<open>Linear(in_features=784,
  out_features=512, bias=True)\<close>), and the network with its \<^verbatim>\<open>hidden_layers\<close> module
  list and its \<^verbatim>\<open>output\<close> layer (\<open>output_layer\<close>). The dropout module has no parameters and is
  left out.
\<close>

record 'a linear =
  in_features :: int
  out_features :: int
  weight :: "'a tensor"
  bias :: "'a tensor"

record 'a network =
  hidden_layers :: "'a linear list"
  output_layer :: "'a linear"

text \<open>
  The values stored in a checkpoint dictionary: an integer, a list of integers, or a
  state dict. A dictionary is a list of entries in insertion order.
\<close>

datatype 'a pyval = PInt int | PList "int list" | PStateDict "'a state_dict"

type_synonym 'a pydict = "(string \<times> 'a pyval) list"

text \<open>
  The exceptions. A failed \<^verbatim>\<open>load_state_dict\<close> raises \<^verbatim>\<open>RuntimeError\<close> with one
  message per problem; the size mismatch message names the parameter, the size in the
  checkpoint and the size in the current model, as in the notebook's recorded output.
\<close>

datatype load_msg =
    MissingKeys "string list"
  | UnexpectedKeys "string list"
  | SizeMismatch string "int list" "int list"

datatype error =
    FileNotFoundError string
  | KeyError string
  | TypeError
  | RuntimeError "load_msg list"

text \<open>
  What a caller can see: the files written by \<^verbatim>\<open>torch.save\<close>, the model objects, and
  the state of the library's global random generator, from which a constructor draws the
  initial numbers of its tensors (the state is kept abstract, as a natural number).
  A model handle is an index into \<open>heap\<close>; a new object is appended. A Python reference
  always names an object, so the handles a caller holds are below \<open>length (heap w)\<close>.
\<close>

record 'a world =
  files :: "string \<Rightarrow> 'a pydict option"
  heap :: "'a network list"
  rng :: nat

section \<open>The collaborators\<close>

text \<open>Python's \<^verbatim>\<open>str\<close> on a list index.\<close>

fun str :: "nat \<Rightarrow> string" where
  "str n = (if n < 10 then [''0123456789'' ! n]
            else str (n div 10) @ [''0123456789'' ! (n mod 10)])"

text \<open>
  Modelled from the spec: \<^verbatim>\<open>torch.save\<close>, the \<^verbatim>\<open>save(object, sink)\<close> of the external
  object-serialization facility. Its byte format is not part of the repository; the spec
  gives the persisted layout as logical, not bit-level. A file holds the object that was
  saved to it. The bytes of the container, a version the container may write into them and
  a failure of the file system are not modelled, and nothing below speaks about them.
\<close>

definition torch_save :: "'a pydict \<Rightarrow> string \<Rightarrow> 'a world \<Rightarrow> 'a world" where
  "torch_save obj f w = w\<lparr>files := (files w)(f \<mapsto> obj)\<rparr>"

text \<open>
  Modelled from the spec: \<^verbatim>\<open>torch.load\<close>, the \<^verbatim>\<open>load(source) -> object\<close> of the same
  facility. Opening a file that does not exist raises \<^verbatim>\<open>FileNotFoundError\<close>. What the
  library does with bytes it cannot parse, or with a container version it does not
  support, is not modelled: a file here is never anything but a saved object.
\<close>

definition torch_load :: "string \<Rightarrow> 'a world \<Rightarrow> error + 'a pydict" where
  "torch_load f w = (case files w f of None \<Rightarrow> Inl (FileNotFoundError f) | Some obj \<Rightarrow> Inr obj)"

text \<open>Subscription \<^verbatim>\<open>d[k]\<close> of a dictionary.\<close>

definition getitem :: "'a pydict \<Rightarrow> string \<Rightarrow> error + 'a pyval" where
  "getitem d k = (case map_of d k of None \<Rightarrow> Inl (KeyError k) | Some v \<Rightarrow> Inr v)"

text \<open>
  Modelled from the spec: the constructor \<^verbatim>\<open>nn.Linear(in_features, out_features)\<close> of
  the external library. The weight has \<open>out_features\<close> rows and \<open>in_features\<close> columns,
  the bias has \<open>out_features\<close> entries (the sizes in the notebook's recorded error: a
  \<^verbatim>\<open>Linear(784, 512)\<close> has a weight of size \<^verbatim>\<open>[512, 784]\<close> and a bias of size
  \<^verbatim>\<open>[512]\<close>). The initial numbers of a fresh tensor are drawn from the global random
  generator (the notebook of part 3 prints the \<^verbatim>\<open>Initial weights\<close> of a layer just
  constructed: small numbers that differ from entry to entry). \<open>draw\<close> is the library's
  sampler, which takes the generator's state and a size and gives the numbers and the
  generator's state afterwards; the weight is drawn before the bias.
\<close>

definition Linear :: "(nat \<Rightarrow> int list \<Rightarrow> 'a \<times> nat) \<Rightarrow> int \<Rightarrow> int \<Rightarrow> nat \<Rightarrow> 'a linear \<times> nat" where
  "Linear draw n_in n_out g =
     (case draw g [n_out, n_in] of (wt, g1) \<Rightarrow>
      case draw g1 [n_out] of (b, g2) \<Rightarrow>
        (\<lparr>in_features = n_in, out_features = n_out,
          weight = \<lparr>shape = [n_out, n_in], storage = wt\<rparr>,
          bias = \<lparr>shape = [n_out], storage = b\<rparr>\<rparr>, g2))"

text \<open>
  Modelled from the spec: the chain of hidden layers of \<^verbatim>\<open>fc_model.Network\<close>. Each
  hidden layer takes the width of the layer before it (the input size for layer 0) to its
  own width; the layers are constructed front to back.
\<close>

fun linears ::
  "(nat \<Rightarrow> int list \<Rightarrow> 'a \<times> nat) \<Rightarrow> int \<Rightarrow> int list \<Rightarrow> nat \<Rightarrow> 'a linear list \<times> nat" where
  "linears draw prev [] g = ([], g)"
| "linears draw prev (h # hs) g =
     (case Linear draw prev h g of (l, g1) \<Rightarrow>
      case linears draw h hs g1 of (ls, g2) \<Rightarrow> (l # ls, g2))"

text \<open>
  Modelled from the spec: \<^verbatim>\<open>fc_model.Network\<close>, the model-construction collaborator;
  the file \<^verbatim>\<open>fc_model.py\<close> is not among the sources. It takes
  \<^verbatim>\<open>(input_size, output_size, hidden_layers)\<close> and nothing else. The output layer
  takes the width of the last hidden layer to the output size; with no hidden layer it
  maps the input directly. The notebook's printed models (\<^verbatim>\<open>Linear(784, 512)\<close>,
  \<^verbatim>\<open>Linear(512, 256)\<close>, \<^verbatim>\<open>Linear(256, 128)\<close>, output \<^verbatim>\<open>Linear(128, 10)\<close>) agree.
  An argument of another type is a \<^verbatim>\<open>TypeError\<close>, raised before anything is drawn.
  The result is the network and the generator's state after the draws.
\<close>

fun Network ::
  "(nat \<Rightarrow> int list \<Rightarrow> 'a \<times> nat) \<Rightarrow> 'a pyval \<Rightarrow> 'a pyval \<Rightarrow> 'a pyval \<Rightarrow> nat
     \<Rightarrow> error + 'a network \<times> nat" where
  "Network draw (PInt input_size) (PInt output_size) (PList hidden) g =
     (case linears draw input_size hidden g of (ls, g1) \<Rightarrow>
      case Linear draw (last (input_size # hidden)) output_size g1 of (out, g2) \<Rightarrow>
        Inr (\<lparr>hidden_layers = ls, output_layer = out\<rparr>, g2))"
| "Network draw _ _ _ g = Inl TypeError"

text \<open>A constructor call allocates a new object.\<close>

definition new :: "'a network \<Rightarrow> 'a world \<Rightarrow> nat \<times> 'a world" where
  "new m w = (length (heap w), w\<lparr>heap := heap w @ [m]\<rparr>)"

text \<open>
  Modelled from the spec: the two entries of one layer in a state dict, its weight and
  its bias under the layer's prefix.
\<close>

definition layer_items :: "string \<Rightarrow> 'a linear \<Rightarrow> 'a state_dict" where
  "layer_items prefix l = [(prefix @ ''weight'', weight l), (prefix @ ''bias'', bias l)]"

text \<open>
  Modelled from the spec: the entries of the module list \<^verbatim>\<open>hidden_layers\<close>, layer
  \<open>i\<close> under the prefix \<^verbatim>\<open>hidden_layers.i.\<close>.
\<close>

fun hidden_items :: "nat \<Rightarrow> 'a linear list \<Rightarrow> 'a state_dict" where
  "hidden_items i [] = []"
| "hidden_items i (l # ls) =
     layer_items (''hidden_layers.'' @ str i @ ''.'') l @ hidden_items (Suc i) ls"

text \<open>
  Modelled from the spec: \<^verbatim>\<open>state_dict()\<close> of the external library, the ordered
  enumeration of a model's parameter tensors. The keys and their order are the ones the
  notebook prints: \<^verbatim>\<open>hidden_layers.0.weight\<close>, \<^verbatim>\<open>hidden_layers.0.bias\<close>, ...,
  \<^verbatim>\<open>output.weight\<close>, \<^verbatim>\<open>output.bias\<close>.
\<close>

definition state_dict :: "'a network \<Rightarrow> 'a state_dict" where
  "state_dict m = hidden_items 0 (hidden_layers m) @ layer_items ''output.'' (output_layer m)"

text \<open>
  Modelled from the spec: the size check of \<^verbatim>\<open>load_state_dict\<close>. The notebook records
  its failure on a model of another architecture: one \<^verbatim>\<open>size mismatch\<close> message for
  each parameter whose size in the state dict differs from its size in the model, in the
  model's parameter order, with the parameter's name and the two sizes.
\<close>

definition size_mismatches :: "'a state_dict \<Rightarrow> 'a state_dict \<Rightarrow> load_msg list" where
  "size_mismatches own sd =
     concat (map (\<lambda>(k, p). case map_of sd k of
                              None \<Rightarrow> []
                            | Some t \<Rightarrow> if shape t \<noteq> shape p
                                        then [SizeMismatch k (shape t) (shape p)] else []) own)"

text \<open>
  Modelled from the spec: all the messages of a load. The collaborator requires exact
  layer-by-layer agreement between the model's parameters and the state dict, so a
  parameter without an entry and an entry without a parameter are reported too. Only
  whether the list is empty, and which size mismatches it holds, is used below; the
  order in which the library names the keys inside one message is not.
\<close>

definition error_msgs :: "'a network \<Rightarrow> 'a state_dict \<Rightarrow> load_msg list" where
  "error_msgs m sd =
     (let own = state_dict m;
          missing = filter (\<lambda>k. map_of sd k = None) (map fst own);
          unexpected = filter (\<lambda>k. map_of own k = None) (map fst sd)
      in (if missing = [] then [] else [MissingKeys missing])
         @ (if unexpected = [] then [] else [UnexpectedKeys unexpected])
         @ size_mismatches own sd)"

text \<open>
  Modelled from the spec: loading one parameter replaces its numbers by those of the entry
  of the same name (an exact copy: the parameter and the entry have the same dtype, see
  above).
\<close>

definition copy_param :: "'a state_dict \<Rightarrow> string \<Rightarrow> 'a tensor \<Rightarrow> 'a tensor" where
  "copy_param sd k p = (case map_of sd k of None \<Rightarrow> p | Some t \<Rightarrow> p\<lparr>storage := storage t\<rparr>)"

text \<open>Modelled from the spec: loading the weight and the bias of one layer.\<close>

definition load_layer :: "'a state_dict \<Rightarrow> string \<Rightarrow> 'a linear \<Rightarrow> 'a linear" where
  "load_layer sd prefix l =
     l\<lparr>weight := copy_param sd (prefix @ ''weight'') (weight l),
       bias := copy_param sd (prefix @ ''bias'') (bias l)\<rparr>"

text \<open>Modelled from the spec: loading the layers of the module list, in order.\<close>

fun load_hidden :: "'a state_dict \<Rightarrow> nat \<Rightarrow> 'a linear list \<Rightarrow> 'a linear list" where
  "load_hidden sd i [] = []"
| "load_hidden sd i (l # ls) =
     load_layer sd (''hidden_layers.'' @ str i @ ''.'') l # load_hidden sd (Suc i) ls"

text \<open>
  Modelled from the spec: the outcome of a load on a model. As in the traceback the
  notebook records (\<^verbatim>\<open>if len(error_msgs) > 0: raise RuntimeError(...)\<close>), one
  \<^verbatim>\<open>RuntimeError\<close> carries all the messages; without messages every parameter is
  loaded.
\<close>

definition loaded :: "'a network \<Rightarrow> 'a state_dict \<Rightarrow> error + 'a network" where
  "loaded m sd =
     (let msgs = error_msgs m sd
      in if msgs \<noteq> [] then Inl (RuntimeError msgs)
         else Inr \<lparr>hidden_layers = load_hidden sd 0 (hidden_layers m),
                   output_layer = load_layer sd ''output.'' (output_layer m)\<rparr>)"

text \<open>
  Modelled from the spec: \<^verbatim>\<open>model.load_state_dict(state_dict)\<close> of the external
  library, the parameter-loading collaborator. A successful load changes the object
  that the handle names, in place. What the target holds after a failed load is not
  modelled: the failure returns no world.
\<close>

fun load_state_dict :: "nat \<Rightarrow> 'a pyval \<Rightarrow> 'a world \<Rightarrow> error + 'a world" where
  "load_state_dict model (PStateDict sd) w =
     (case loaded (heap w ! model) sd of
        Inl e \<Rightarrow> Inl e
      | Inr m \<Rightarrow> Inr (w\<lparr>heap := (heap w)[model := m]\<rparr>))"
| "load_state_dict model _ w = Inl TypeError"

section \<open>The notebook's cells\<close>

text \<open>
  \<^verbatim>\<open>checkpoint = {'input_size': 784, 'output_size': 10,
                'hidden_layers': [each.out_features for each in model.hidden_layers],
                'state_dict': model.state_dict()}
  torch.save(checkpoint, 'checkpoint.pth')\<close>
\<close>

definition checkpoint :: "'a network \<Rightarrow> 'a pydict" where
  "checkpoint model =
     [(''input_size'', PInt 784),
      (''output_size'', PInt 10),
      (''hidden_layers'', PList (map out_features (hidden_layers model))),
      (''state_dict'', PStateDict (state_dict model))]"

definition save_checkpoint :: "nat \<Rightarrow> 'a world \<Rightarrow> 'a world" where
  "save_checkpoint model w = torch_save (checkpoint (heap w ! model)) ''checkpoint.pth'' w"

text \<open>
  \<^verbatim>\<open>def load_checkpoint(filepath):
      checkpoint = torch.load(filepath)
      model = fc_model.Network(checkpoint['input_size'],
                               checkpoint['output_size'],
                               checkpoint['hidden_layers'])
      model.load_state_dict(checkpoint['state_dict'])
      return model\<close>
  The arguments are evaluated left to right, then the constructor is called, then the
  state dict is read and loaded (\<open>checkpoint'\<close> is the function's local \<^verbatim>\<open>checkpoint\<close>).
  The constructor draws from the global random generator, and what it has drawn stays
  drawn when a later step raises. \<open>model\<close> is a local variable: when an exception leaves
  the function, the object it names is unreachable, and the caller's objects and files
  are the ones before the call.
\<close>

definition load_checkpoint ::
  "(nat \<Rightarrow> int list \<Rightarrow> 'a \<times> nat) \<Rightarrow> string \<Rightarrow> 'a world \<Rightarrow> (error + nat) \<times> 'a world" where
  "load_checkpoint draw filepath w =
     (case torch_load filepath w of Inl e \<Rightarrow> (Inl e, w) | Inr checkpoint' \<Rightarrow>
     (case getitem checkpoint' ''input_size'' of Inl e \<Rightarrow> (Inl e, w) | Inr a1 \<Rightarrow>
     (case getitem checkpoint' ''output_size'' of Inl e \<Rightarrow> (Inl e, w) | Inr a2 \<Rightarrow>
     (case getitem checkpoint' ''hidden_layers'' of Inl e \<Rightarrow> (Inl e, w) | Inr a3 \<Rightarrow>
     (case Network draw a1 a2 a3 (rng w) of Inl e \<Rightarrow> (Inl e, w) | Inr (m0, g) \<Rightarrow>
     (case new m0 (w\<lparr>rng := g\<rparr>) of (model, w1) \<Rightarrow>
     (case getitem checkpoint' ''state_dict'' of Inl e \<Rightarrow> (Inl e, w\<lparr>rng := g\<rparr>) | Inr a4 \<Rightarrow>
     (case load_state_dict model a4 w1 of Inl e \<Rightarrow> (Inl e, w\<lparr>rng := g\<rparr>)
      | Inr w2 \<Rightarrow> (Inr model, w2)))))))))"

section \<open>Shapes a descriptor implies\<close>

text \<open>
  Modelled from the spec: the Data Model's invariant on a parameter bundle, for the hidden
  layers. For each layer the weight has as many rows as the layer's width and as many
  columns as the width of the layer before it (the input size for layer 0), and the bias
  is as long as the layer's width.
\<close>

fun hidden_shapes :: "nat \<Rightarrow> int \<Rightarrow> int list \<Rightarrow> (string \<times> int list) list" where
  "hidden_shapes i prev [] = []"
| "hidden_shapes i prev (h # hs) =
     [(''hidden_layers.'' @ str i @ ''.weight'', [h, prev]),
      (''hidden_layers.'' @ str i @ ''.bias'', [h])] @ hidden_shapes (Suc i) h hs"

text \<open>
  Modelled from the spec: the names and sizes a descriptor implies, one weight and one
  bias for every hidden layer and for the output layer, in the order of layer
  construction.
\<close>

definition param_shapes :: "int \<Rightarrow> int \<Rightarrow> int list \<Rightarrow> (string \<times> int list) list" where
  "param_shapes input_size output_size hidden =
     hidden_shapes 0 input_size hidden
     @ [(''output.weight'', [output_size, last (input_size # hidden)]),
        (''output.bias'', [output_size])]"

text \<open>The names and sizes of a state dict.\<close>

definition shapes_of :: "'a state_dict \<Rightarrow> (string \<times> int list) list" where
  "shapes_of sd = map (\<lambda>(k, t). (k, shape t)) sd"

text \<open>
  Modelled from the spec: a valid (descriptor, parameters) pair. The bundle has exactly
  the names and sizes the descriptor implies, in their order.
\<close>

definition valid_bundle :: "int \<Rightarrow> int \<Rightarrow> int list \<Rightarrow> 'a state_dict \<Rightarrow> bool" where
  "valid_bundle input_size output_size hidden sd \<longleftrightarrow>
     shapes_of sd = param_shapes input_size output_size hidden"

text \<open>
  What the caller of \<open>load_checkpoint\<close> gets: the exception, or the model object that the
  returned handle names.
\<close>

definition returned :: "(error + nat) \<times> 'a world \<Rightarrow> error + 'a network" where
  "returned res = (case res of (Inl e, w') \<Rightarrow> Inl e | (Inr model, w') \<Rightarrow> Inr (heap w' ! model))"

text \<open>
  The model that \<open>load_checkpoint\<close> builds from a loaded dictionary, as a value, and the
  state in which it leaves the generator: used in the proofs, where
  \<open>load_checkpoint_rebuilt\<close> shows that \<open>load_checkpoint\<close> reads the file, builds this value
  and publishes it as a new object.
\<close>

definition rebuilt ::
  "(nat \<Rightarrow> int list \<Rightarrow> 'a \<times> nat) \<Rightarrow> nat \<Rightarrow> 'a pydict \<Rightarrow> error + 'a network" where
  "rebuilt draw g ck =
     (case getitem ck ''input_size'' of Inl e \<Rightarrow> Inl e | Inr a1 \<Rightarrow>
     (case getitem ck ''output_size'' of Inl e \<Rightarrow> Inl e | Inr a2 \<Rightarrow>
     (case getitem ck ''hidden_layers'' of Inl e \<Rightarrow> Inl e | Inr a3 \<Rightarrow>
     (case Network draw a1 a2 a3 g of Inl e \<Rightarrow> Inl e | Inr (m0, g') \<Rightarrow>
     (case getitem ck ''state_dict'' of Inl e \<Rightarrow> Inl e
      | Inr (PStateDict sd) \<Rightarrow> loaded m0 sd
      | Inr _ \<Rightarrow> Inl TypeError)))))"

definition drawn ::
  "(nat \<Rightarrow> int list \<Rightarrow> 'a \<times> nat) \<Rightarrow> nat \<Rightarrow> 'a pydict \<Rightarrow> nat" where
  "drawn draw g ck =
     (case getitem ck ''input_size'' of Inl e \<Rightarrow> g | Inr a1 \<Rightarrow>
     (case getitem ck ''output_size'' of Inl e \<Rightarrow> g | Inr a2 \<Rightarrow>
     (case getitem ck ''hidden_layers'' of Inl e \<Rightarrow> g | Inr a3 \<Rightarrow>
     (case Network draw a1 a2 a3 g of Inl e \<Rightarrow> g | Inr (m0, g') \<Rightarrow> g'))))"

section \<open>Basic facts\<close>

lemma torch_load_save: "torch_load f (torch_save obj f w) = Inr obj"
  by (simp add: torch_load_def torch_save_def)

subsection \<open>Parameter names are distinct\<close>

declare str.simps [simp del]

lemma digit_inj:
  assumes "a < 10" "b < 10" "''0123456789'' ! a = ''0123456789'' ! b"
  shows "a = b"
proof -
  have A: "a \<in> {0,1,2,3,4,5,6,7,8,9}" using assms(1) by auto
  have B: "b \<in> {0,1,2,3,4,5,6,7,8,9}" using assms(2) by auto
  show ?thesis using A B assms(3) by auto
qed

lemma str_not_Nil: "str n \<noteq> []"
  by (subst str.simps) simp

lemma str_inj: "str m = str n \<Longrightarrow> m = n"
proof (induction m arbitrary: n rule: str.induct)
  case (1 m)
  show ?case
  proof (cases "m < 10")
    case True
    show ?thesis
    proof (cases "n < 10")
      case True
      with \<open>m < 10\<close> 1(2) show ?thesis
        by (simp add: str.simps [of m] str.simps [of n] digit_inj)
    next
      case False
      with \<open>m < 10\<close> 1(2) show ?thesis
        using str_not_Nil [of "n div 10"] by (simp add: str.simps [of m] str.simps [of n])
    qed
  next
    case False
    show ?thesis
    proof (cases "n < 10")
      case True
      with False 1(2) show ?thesis
        using str_not_Nil [of "m div 10"] by (simp add: str.simps [of m] str.simps [of n])
    next
      case n: False
      from False n 1(2) have e: "str (m div 10) = str (n div 10)"
        and d: "''0123456789'' ! (m mod 10) = ''0123456789'' ! (n mod 10)"
        by (simp_all add: str.simps [of m] str.simps [of n])
      from 1(1) [OF False e] have "m div 10 = n div 10" .
      moreover from d have "m mod 10 = n mod 10" by (intro digit_inj) simp_all
      ultimately show ?thesis by (metis div_mult_mod_eq)
    qed
  qed
qed

lemma weight_not_bias: "s @ ''.weight'' \<noteq> t @ ''.bias''"
proof
  assume "s @ ''.weight'' = t @ ''.bias''"
  then have "last (s @ ''.weight'') = last (t @ ''.bias'')" by simp
  then show False by simp
qed

lemma hidden_keys:
  "k \<in> fst ` set (hidden_items i ls) \<Longrightarrow>
   \<exists>j\<ge>i. k = ''hidden_layers.'' @ str j @ ''.weight'' \<or> k = ''hidden_layers.'' @ str j @ ''.bias''"
proof (induction ls arbitrary: i)
  case Nil
  then show ?case by simp
next
  case (Cons l ls)
  from Cons.prems consider "k = ''hidden_layers.'' @ str i @ ''.weight''"
    | "k = ''hidden_layers.'' @ str i @ ''.bias''" | "k \<in> fst ` set (hidden_items (Suc i) ls)"
    by (auto simp: layer_items_def)
  then show ?case
  proof cases
    case 3
    from Cons.IH [OF 3] obtain j where "Suc i \<le> j"
      and "k = ''hidden_layers.'' @ str j @ ''.weight'' \<or> k = ''hidden_layers.'' @ str j @ ''.bias''"
      by blast
    then show ?thesis by (intro exI [of _ j]) simp
  qed auto
qed

lemma distinct_hidden_items: "distinct (map fst (hidden_items i ls))"
proof (induction ls arbitrary: i)
  case Nil
  then show ?case by simp
next
  case (Cons l ls)
  have "''hidden_layers.'' @ str i @ ''.weight'' \<notin> fst ` set (hidden_items (Suc i) ls)"
    using hidden_keys [of _ "Suc i" ls] weight_not_bias str_inj by fastforce
  moreover have "''hidden_layers.'' @ str i @ ''.bias'' \<notin> fst ` set (hidden_items (Suc i) ls)"
    using hidden_keys [of _ "Suc i" ls] weight_not_bias [symmetric] str_inj by fastforce
  ultimately show ?case using Cons.IH [of "Suc i"] weight_not_bias [of "str i" "str i"]
    by (simp add: layer_items_def)
qed

lemma distinct_state_dict: "distinct (map fst (state_dict m))"
proof -
  have "''output.weight'' \<notin> fst ` set (hidden_items 0 (hidden_layers m))"
    using hidden_keys [of "''output.weight''" 0 "hidden_layers m"] by auto
  moreover have "''output.bias'' \<notin> fst ` set (hidden_items 0 (hidden_layers m))"
    using hidden_keys [of "''output.bias''" 0 "hidden_layers m"] by auto
  ultimately show ?thesis
    by (simp add: state_dict_def layer_items_def distinct_hidden_items)
qed

subsection \<open>Sizes\<close>

lemma map_fst_shapes_of [simp]: "map fst (shapes_of sd) = map fst sd"
  by (simp add: shapes_of_def case_prod_unfold comp_def)

lemma shapes_of_Nil [simp]: "shapes_of [] = []"
  by (simp add: shapes_of_def)

lemma shapes_of_append [simp]: "shapes_of (xs @ ys) = shapes_of xs @ shapes_of ys"
  by (simp add: shapes_of_def)

lemma Linear_features:
  "Linear draw a b g = (l, g') \<Longrightarrow> in_features l = a \<and> out_features l = b"
  by (auto simp: Linear_def split: prod.splits)

lemma shapes_of_layer_items:
  "Linear draw a b g = (l, g') \<Longrightarrow>
   shapes_of (layer_items p l) = [(p @ ''weight'', [b, a]), (p @ ''bias'', [b])]"
  by (auto simp: shapes_of_def layer_items_def Linear_def split: prod.splits)

lemma shapes_of_hidden_linears:
  "linears draw prev hs g = (ls, g') \<Longrightarrow>
   shapes_of (hidden_items i ls) = hidden_shapes i prev hs"
proof (induction hs arbitrary: i prev g ls)
  case Nil
  then show ?case by simp
next
  case (Cons h hs)
  from Cons.prems obtain l g1 ls' where l: "Linear draw prev h g = (l, g1)"
    and r: "linears draw h hs g1 = (ls', g')" and ls: "ls = l # ls'"
    by (auto split: prod.splits)
  from shapes_of_layer_items [OF l] Cons.IH [OF r] show ?case
    by (simp add: ls)
qed

lemma hidden_linears_features:
  "linears draw prev hs g = (ls, g') \<Longrightarrow>
   map out_features ls = hs \<and> map in_features ls = butlast (prev # hs)"
proof (induction hs arbitrary: prev g ls)
  case Nil
  then show ?case by simp
next
  case (Cons h hs)
  from Cons.prems obtain l g1 ls' where l: "Linear draw prev h g = (l, g1)"
    and r: "linears draw h hs g1 = (ls', g')" and ls: "ls = l # ls'"
    by (auto split: prod.splits)
  from Linear_features [OF l] Cons.IH [OF r] show ?case
    by (simp add: ls)
qed

lemma Network_args:
  "Network draw v1 v2 v3 g = Inr r \<Longrightarrow> \<exists>n_in n_out hs. v1 = PInt n_in \<and> v2 = PInt n_out \<and> v3 = PList hs"
  by (cases "(draw, v1, v2, v3, g)" rule: Network.cases) auto

lemma Network_layers:
  "Network draw (PInt n_in) (PInt n_out) (PList hs) g = Inr (m, g') \<Longrightarrow>
   \<exists>g1. linears draw n_in hs g = (hidden_layers m, g1)
      \<and> Linear draw (last (n_in # hs)) n_out g1 = (output_layer m, g')"
  by (auto simp del: last.simps split: prod.splits)

lemma Network_total:
  "\<exists>m g'. Network draw (PInt n_in) (PInt n_out) (PList hs) g = Inr (m, g')"
  by (simp split: prod.split)

lemma Network_error:
  "Network draw1 v1 v2 v3 g1 = Inl e \<Longrightarrow> Network draw2 v1 v2 v3 g2 = Inl e"
  by (cases "(draw1, v1, v2, v3, g1)" rule: Network.cases) (auto split: prod.splits)

lemma shapes_of_Network:
  assumes "Network draw (PInt n_in) (PInt n_out) (PList hs) g = Inr (m, g')"
  shows "shapes_of (state_dict m) = param_shapes n_in n_out hs"
proof -
  from Network_layers [OF assms] obtain g1
    where l: "linears draw n_in hs g = (hidden_layers m, g1)"
    and o: "Linear draw (last (n_in # hs)) n_out g1 = (output_layer m, g')"
    by blast
  from shapes_of_hidden_linears [OF l] shapes_of_layer_items [OF o] show ?thesis
    by (simp add: state_dict_def param_shapes_def del: last.simps)
qed

lemma Network_features:
  assumes "Network draw (PInt n_in) (PInt n_out) (PList hs) g = Inr (m, g')"
  shows "map out_features (hidden_layers m) = hs"
    and "map in_features (hidden_layers m @ [output_layer m]) = n_in # hs"
    and "out_features (output_layer m) = n_out"
proof -
  from Network_layers [OF assms] obtain g1
    where l: "linears draw n_in hs g = (hidden_layers m, g1)"
    and o: "Linear draw (last (n_in # hs)) n_out g1 = (output_layer m, g')"
    by blast
  from hidden_linears_features [OF l] Linear_features [OF o]
  show "map out_features (hidden_layers m) = hs"
    and "map in_features (hidden_layers m @ [output_layer m]) = n_in # hs"
    and "out_features (output_layer m) = n_out"
    by (simp_all del: last.simps butlast.simps)
qed

subsection \<open>A state dict of the model's own names and sizes loads\<close>

lemma hidden_items_load_hidden:
  "hidden_items i (load_hidden sd i ls) = map (\<lambda>(k, p). (k, copy_param sd k p)) (hidden_items i ls)"
  by (induction ls arbitrary: i) (simp_all add: layer_items_def load_layer_def)

lemma state_dict_loaded:
  "loaded m sd = Inr m' \<Longrightarrow>
   state_dict m' = map (\<lambda>(k, p). (k, copy_param sd k p)) (state_dict m)"
  by (auto simp: loaded_def Let_def state_dict_def hidden_items_load_hidden layer_items_def
        load_layer_def split: if_splits)

lemma map_of_nth:
  "distinct (map fst xs) \<Longrightarrow> i < length xs \<Longrightarrow> map_of xs (fst (xs ! i)) = Some (snd (xs ! i))"
  by simp

lemma shapes_of_nth:
  assumes "shapes_of sd = shapes_of own" "i < length own"
  shows "fst (sd ! i) = fst (own ! i)" "shape (snd (sd ! i)) = shape (snd (own ! i))"
proof -
  from assms(1) have len: "length sd = length own"
    by (metis length_map shapes_of_def)
  from assms have "shapes_of sd ! i = shapes_of own ! i" by simp
  with len assms(2) show "fst (sd ! i) = fst (own ! i)" "shape (snd (sd ! i)) = shape (snd (own ! i))"
    by (simp_all add: shapes_of_def case_prod_unfold)
qed

lemma copy_all:
  assumes "shapes_of sd = shapes_of own" "distinct (map fst own)"
  shows "map (\<lambda>(k, p). (k, copy_param sd k p)) own = sd"
proof (rule nth_equalityI)
  from assms(1) have len: "length sd = length own"
    by (metis length_map shapes_of_def)
  then show "length (map (\<lambda>(k, p). (k, copy_param sd k p)) own) = length sd" by simp
  fix i assume "i < length (map (\<lambda>(k, p). (k, copy_param sd k p)) own)"
  then have i: "i < length own" by simp
  from assms have d: "distinct (map fst sd)" by (metis map_fst_shapes_of)
  have k: "fst (sd ! i) = fst (own ! i)" and s: "shape (snd (sd ! i)) = shape (snd (own ! i))"
    using shapes_of_nth [OF assms(1) i] by simp_all
  have "map_of sd (fst (own ! i)) = Some (snd (sd ! i))"
    using map_of_nth [OF d, of i] i len k by simp
  then have "copy_param sd (fst (own ! i)) (snd (own ! i)) = snd (sd ! i)"
    using s by (simp add: copy_param_def)
  then show "map (\<lambda>(k, p). (k, copy_param sd k p)) own ! i = sd ! i"
    using i k by (simp add: case_prod_unfold prod_eq_iff)
qed

lemma size_mismatches_shapes:
  "size_mismatches own sd =
     concat (map (\<lambda>(k, s). case map_of sd k of None \<Rightarrow> []
        | Some t \<Rightarrow> if shape t \<noteq> s then [SizeMismatch k (shape t) s] else []) (shapes_of own))"
  by (simp add: size_mismatches_def shapes_of_def comp_def case_prod_unfold
        cong: option.case_cong if_cong)

lemma no_size_mismatches:
  assumes "shapes_of sd = shapes_of own" "distinct (map fst own)"
  shows "size_mismatches own sd = []"
proof -
  from assms have d: "distinct (map fst sd)" by (metis map_fst_shapes_of)
  have "\<And>k s. (k, s) \<in> set (shapes_of own) \<Longrightarrow>
      (case map_of sd k of None \<Rightarrow> [] | Some t \<Rightarrow> if shape t \<noteq> s then [SizeMismatch k (shape t) s] else []) = []"
  proof -
    fix k s assume "(k, s) \<in> set (shapes_of own)"
    then have "(k, s) \<in> set (shapes_of sd)" using assms(1) by simp
    then obtain t where t: "(k, t) \<in> set sd" "shape t = s" by (auto simp: shapes_of_def)
    with d have "map_of sd k = Some t" by simp
    with t show "(case map_of sd k of None \<Rightarrow> [] | Some t \<Rightarrow> if shape t \<noteq> s then [SizeMismatch k (shape t) s] else []) = []"
      by simp
  qed
  then show ?thesis unfolding size_mismatches_shapes by auto
qed

lemma map_of_None_iff_keys: "map_of xs k = None \<longleftrightarrow> k \<notin> set (map fst xs)"
  by (simp add: map_of_eq_None_iff)

lemma error_msgs_keys_shapes:
  assumes "shapes_of (state_dict m1) = shapes_of (state_dict m2)"
  shows "error_msgs m1 sd = error_msgs m2 sd"
proof -
  from assms have "map fst (state_dict m1) = map fst (state_dict m2)"
    by (metis map_fst_shapes_of)
  with assms show ?thesis
    unfolding error_msgs_def Let_def size_mismatches_shapes map_of_None_iff_keys by simp
qed

lemma no_error_msgs:
  assumes "shapes_of sd = shapes_of (state_dict m)"
  shows "error_msgs m sd = []"
proof -
  from assms have k: "map fst sd = map fst (state_dict m)" by (metis map_fst_shapes_of)
  show ?thesis
    unfolding error_msgs_def Let_def map_of_None_iff_keys
    using k no_size_mismatches [OF assms distinct_state_dict] by simp
qed

lemma loaded_valid:
  assumes "shapes_of sd = shapes_of (state_dict m)"
  shows "\<exists>m'. loaded m sd = Inr m' \<and> state_dict m' = sd"
proof -
  from no_error_msgs [OF assms] obtain m' where m': "loaded m sd = Inr m'"
    by (simp add: loaded_def)
  from state_dict_loaded [OF m'] copy_all [OF assms distinct_state_dict]
  show ?thesis using m' by simp
qed

subsection \<open>Messages of a failed load\<close>

lemma size_mismatch_reported:
  assumes "(k, p) \<in> set own" "map_of sd k = Some t" "shape t \<noteq> shape p"
  shows "SizeMismatch k (shape t) (shape p) \<in> set (size_mismatches own sd)"
  using assms unfolding size_mismatches_def by force

lemma error_msgs_Nil_found:
  assumes "error_msgs m sd = []" "k \<in> set (map fst (state_dict m))"
  shows "map_of sd k \<noteq> None"
proof
  assume "map_of sd k = None"
  with assms(2) have "k \<in> set (filter (\<lambda>k. map_of sd k = None) (map fst (state_dict m)))"
    by simp
  then have "filter (\<lambda>k. map_of sd k = None) (map fst (state_dict m)) \<noteq> []"
    by (metis empty_iff empty_set)
  with assms(1) show False by (simp add: error_msgs_def Let_def split: if_splits)
qed

subsection \<open>The names a state dict has\<close>

lemma keys_hidden_items:
  "map fst (hidden_items i ls) = map fst (hidden_shapes i prev (map out_features ls))"
  by (induction ls arbitrary: i prev) (simp_all add: layer_items_def)

lemma keys_state_dict:
  "map fst (state_dict m) = map fst (param_shapes n_in n_out (map out_features (hidden_layers m)))"
  by (simp add: state_dict_def param_shapes_def layer_items_def keys_hidden_items [of _ _ n_in])

subsection \<open>Two networks with the same entries and sizes are equal\<close>

lemma length_hidden_items: "length (hidden_items i ls) = 2 * length ls"
  by (induction ls arbitrary: i) (simp_all add: layer_items_def)

lemma linear_eqI:
  fixes l l' :: "'a linear"
  assumes "layer_items p l' = layer_items p l" "in_features l' = in_features l"
    "out_features l' = out_features l"
  shows "l' = l"
  using assms by (cases l; cases l') (simp add: layer_items_def)

lemma hidden_eqI:
  fixes ls ls' :: "'a linear list"
  assumes "hidden_items i ls' = hidden_items i ls"
    and "map in_features ls' = map in_features ls"
    and "map out_features ls' = map out_features ls"
  shows "ls' = ls"
  using assms
proof (induction ls arbitrary: ls' i)
  case Nil
  then show ?case by simp
next
  case (Cons l ls)
  from Cons.prems(2) obtain l' ls'' where ls': "ls' = l' # ls''" by (cases ls') auto
  from Cons.prems(1) have a: "layer_items (''hidden_layers.'' @ str i @ ''.'') l'
        = layer_items (''hidden_layers.'' @ str i @ ''.'') l"
    and b: "hidden_items (Suc i) ls'' = hidden_items (Suc i) ls"
    by (simp_all add: ls' layer_items_def)
  from a Cons.prems(2,3) have "l' = l" by (intro linear_eqI) (simp_all add: ls')
  moreover from b Cons.prems(2,3) have "ls'' = ls" by (intro Cons.IH) (simp_all add: ls')
  ultimately show ?case by (simp add: ls')
qed

lemma network_eqI:
  fixes m m' :: "'a network"
  assumes "state_dict m' = state_dict m"
    and "map out_features (hidden_layers m') = map out_features (hidden_layers m)"
    and "map in_features (hidden_layers m' @ [output_layer m'])
         = map in_features (hidden_layers m @ [output_layer m])"
    and "out_features (output_layer m') = out_features (output_layer m)"
  shows "m' = m"
proof -
  from assms(2) have len: "length (hidden_layers m') = length (hidden_layers m)"
    by (metis length_map)
  with assms(1) have h: "hidden_items 0 (hidden_layers m') = hidden_items 0 (hidden_layers m)"
    and o: "layer_items ''output.'' (output_layer m') = layer_items ''output.'' (output_layer m)"
    by (simp_all add: state_dict_def length_hidden_items)
  from assms(3) len have i: "map in_features (hidden_layers m') = map in_features (hidden_layers m)"
    and io: "in_features (output_layer m') = in_features (output_layer m)"
    by simp_all
  from h i assms(2) have "hidden_layers m' = hidden_layers m" by (rule hidden_eqI)
  moreover from o io assms(4) have "output_layer m' = output_layer m" by (rule linear_eqI)
  ultimately show ?thesis by (cases m; cases m') simp
qed

subsection \<open>Loading keeps the architecture and forgets the initial numbers\<close>

lemma load_hidden_features:
  "map out_features (load_hidden sd i ls) = map out_features ls"
  "map in_features (load_hidden sd i ls) = map in_features ls"
  by (induction ls arbitrary: i) (simp_all add: load_layer_def)


lemma loaded_features:
  assumes "loaded m sd = Inr m'"
  shows "map out_features (hidden_layers m') = map out_features (hidden_layers m)"
    and "map in_features (hidden_layers m' @ [output_layer m'])
         = map in_features (hidden_layers m @ [output_layer m])"
    and "out_features (output_layer m') = out_features (output_layer m)"
  using assms
  by (auto simp: loaded_def Let_def load_hidden_features load_layer_def split: if_splits)

lemma copy_param_found:
  "map_of sd k \<noteq> None \<Longrightarrow>
   copy_param sd k p = \<lparr>shape = shape p, storage = storage (the (map_of sd k))\<rparr>"
  by (cases p) (auto simp: copy_param_def)

lemma copied_by_shapes:
  assumes "\<And>k. k \<in> set (map fst own) \<Longrightarrow> map_of sd k \<noteq> None"
  shows "map (\<lambda>(k, p). (k, copy_param sd k p)) own
       = map (\<lambda>(k, s). (k, \<lparr>shape = s, storage = storage (the (map_of sd k))\<rparr>)) (shapes_of own)"
  using assms
  by (induction own) (auto simp: shapes_of_def copy_param_found)

lemma loaded_same_sizes:
  fixes m1 m2 :: "'a network"
  assumes s: "shapes_of (state_dict m1) = shapes_of (state_dict m2)"
    and o: "map out_features (hidden_layers m1) = map out_features (hidden_layers m2)"
    and i: "map in_features (hidden_layers m1 @ [output_layer m1])
            = map in_features (hidden_layers m2 @ [output_layer m2])"
    and oo: "out_features (output_layer m1) = out_features (output_layer m2)"
  shows "loaded m1 sd = loaded m2 sd"
proof -
  from s have e: "error_msgs m1 sd = error_msgs m2 sd" by (rule error_msgs_keys_shapes)
  show ?thesis
  proof (cases "error_msgs m1 sd = []")
    case False
    with e show ?thesis by (simp add: loaded_def)
  next
    case True
    with e obtain m1' m2' where l1: "loaded m1 sd = Inr m1'" and l2: "loaded m2 sd = Inr m2'"
      by (simp add: loaded_def)
    from s have k: "map fst (state_dict m1) = map fst (state_dict m2)"
      by (metis map_fst_shapes_of)
    have f1: "\<And>k. k \<in> set (map fst (state_dict m1)) \<Longrightarrow> map_of sd k \<noteq> None"
      using error_msgs_Nil_found [OF True] .
    have f2: "\<And>k. k \<in> set (map fst (state_dict m2)) \<Longrightarrow> map_of sd k \<noteq> None"
      using f1 unfolding k .
    have "state_dict m1' = state_dict m2'"
      by (simp only: state_dict_loaded [OF l1] state_dict_loaded [OF l2]
            copied_by_shapes [of "state_dict m1" sd, OF f1]
            copied_by_shapes [of "state_dict m2" sd, OF f2] s)
    then have "m1' = m2'"
      by (rule network_eqI)
         (simp_all only: loaded_features [OF l1] loaded_features [OF l2] o i oo)
    with l1 l2 show ?thesis by simp
  qed
qed

lemma loaded_Network:
  assumes "Network draw1 v1 v2 v3 g1 = Inr (m1, g1')"
    and "Network draw2 v1 v2 v3 g2 = Inr (m2, g2')"
  shows "loaded m1 sd = loaded m2 sd"
proof -
  from Network_args [OF assms(1)] obtain n_in n_out hs
    where v: "v1 = PInt n_in" "v2 = PInt n_out" "v3 = PList hs"
    by blast
  note a = assms [unfolded v]
  show ?thesis
    by (rule loaded_same_sizes)
       (simp_all only: shapes_of_Network [OF a(1)] shapes_of_Network [OF a(2)]
          Network_features [OF a(1)] Network_features [OF a(2)])
qed

subsection \<open>What \<open>load_checkpoint\<close> returns\<close>

lemma getitem_checkpoint:
  "getitem (checkpoint m) ''input_size'' = Inr (PInt 784)"
  "getitem (checkpoint m) ''output_size'' = Inr (PInt 10)"
  "getitem (checkpoint m) ''hidden_layers'' = Inr (PList (map out_features (hidden_layers m)))"
  "getitem (checkpoint m) ''state_dict'' = Inr (PStateDict (state_dict m))"
  by (simp_all add: getitem_def checkpoint_def)

lemma load_state_dict_fresh:
  "load_state_dict (length h) v (w\<lparr>rng := g, heap := h @ [m0]\<rparr>) =
     (case v of
        PStateDict sd \<Rightarrow>
          (case loaded m0 sd of Inl e \<Rightarrow> Inl e | Inr m \<Rightarrow> Inr (w\<lparr>rng := g, heap := h @ [m]\<rparr>))
      | _ \<Rightarrow> Inl TypeError)"
  by (cases v) (simp_all split: sum.split)

lemma load_checkpoint_rebuilt:
  "load_checkpoint draw fp w =
     (case torch_load fp w of Inl e \<Rightarrow> (Inl e, w)
      | Inr ck \<Rightarrow>
         (case rebuilt draw (rng w) ck of
            Inl e \<Rightarrow> (Inl e, w\<lparr>rng := drawn draw (rng w) ck\<rparr>)
          | Inr m \<Rightarrow> (Inr (length (heap w)),
                      w\<lparr>rng := drawn draw (rng w) ck, heap := heap w @ [m]\<rparr>)))"
  unfolding load_checkpoint_def rebuilt_def drawn_def new_def
  by (simp add: load_state_dict_fresh del: load_state_dict.simps Network.simps
        split: sum.split pyval.split prod.split)

lemma returned_load_checkpoint:
  "returned (load_checkpoint draw fp w) =
     (case torch_load fp w of Inl e \<Rightarrow> Inl e | Inr ck \<Rightarrow> rebuilt draw (rng w) ck)"
  by (simp add: load_checkpoint_rebuilt returned_def split: sum.split)

subsection \<open>The result depends on the file alone\<close>

lemma rebuilt_cong:
  assumes "getitem ck2 ''input_size'' = getitem ck1 ''input_size''"
    and "getitem ck2 ''output_size'' = getitem ck1 ''output_size''"
    and "getitem ck2 ''hidden_layers'' = getitem ck1 ''hidden_layers''"
    and "getitem ck2 ''state_dict'' = getitem ck1 ''state_dict''"
  shows "rebuilt draw2 g2 ck2 = rebuilt draw1 g1 ck1"
proof -
  have N: "(case Network draw2 v1 v2 v3 g2 of Inl e \<Rightarrow> Inl e | Inr (m0, g') \<Rightarrow>
       (case v4 of Inl e \<Rightarrow> Inl e | Inr (PStateDict sd) \<Rightarrow> loaded m0 sd | Inr _ \<Rightarrow> Inl TypeError))
     = (case Network draw1 v1 v2 v3 g1 of Inl e \<Rightarrow> Inl e | Inr (m0, g') \<Rightarrow>
       (case v4 of Inl e \<Rightarrow> Inl e | Inr (PStateDict sd) \<Rightarrow> loaded m0 sd | Inr _ \<Rightarrow> Inl TypeError))"
    for v1 v2 v3 and v4 :: "error + 'a pyval"
  proof (cases "Network draw1 v1 v2 v3 g1")
    case (Inl e)
    with Network_error [OF Inl, of draw2 g2] show ?thesis by simp
  next
    case (Inr r1)
    obtain m1 g1' where r1: "r1 = (m1, g1')" by (cases r1)
    show ?thesis
    proof (cases "Network draw2 v1 v2 v3 g2")
      case (Inl e)
      with Network_error [OF Inl, of draw1 g1] Inr show ?thesis by simp
    next
      case r2: (Inr r2)
      obtain m2 g2' where m2: "r2 = (m2, g2')" by (cases r2)
      from loaded_Network [OF r2 [unfolded m2] Inr [unfolded r1]] show ?thesis
        by (simp add: Inr r2 r1 m2 split: sum.split pyval.split)
    qed
  qed
  show ?thesis unfolding rebuilt_def assms by (simp add: N split: sum.split)
qed

lemma returned_depends_on_file:
  assumes "files w2 fp = files w fp"
  shows "returned (load_checkpoint draw2 fp w2) = returned (load_checkpoint draw fp w)"
  unfolding returned_load_checkpoint torch_load_def assms
  by (simp add: rebuilt_cong [of _ _ draw2 "rng w2" draw "rng w"] split: option.split)

lemma load_checkpoint_valid:
  assumes "files w fp = Some ck"
    and "getitem ck ''input_size'' = Inr (PInt n_in)"
    and "getitem ck ''output_size'' = Inr (PInt n_out)"
    and "getitem ck ''hidden_layers'' = Inr (PList hs)"
    and "getitem ck ''state_dict'' = Inr (PStateDict sd)"
    and "valid_bundle n_in n_out hs sd"
  shows "\<exists>m m0 g. Network draw (PInt n_in) (PInt n_out) (PList hs) (rng w) = Inr (m0, g)
           \<and> load_checkpoint draw fp w
               = (Inr (length (heap w)), w\<lparr>rng := g, heap := heap w @ [m]\<rparr>)
           \<and> state_dict m = sd
           \<and> map out_features (hidden_layers m) = hs
           \<and> map in_features (hidden_layers m @ [output_layer m]) = n_in # hs
           \<and> out_features (output_layer m) = n_out"
proof -
  from Network_total [of draw n_in n_out hs "rng w"] obtain m0 g
    where N: "Network draw (PInt n_in) (PInt n_out) (PList hs) (rng w) = Inr (m0, g)"
    by blast
  from assms(6) shapes_of_Network [OF N] have "shapes_of sd = shapes_of (state_dict m0)"
    by (simp add: valid_bundle_def)
  from loaded_valid [OF this] obtain m where m: "loaded m0 sd = Inr m" "state_dict m = sd"
    by blast
  have r: "rebuilt draw (rng w) ck = Inr m" and d: "drawn draw (rng w) ck = g"
    by (simp_all add: rebuilt_def drawn_def assms(2-5) N m(1) del: Network.simps)
  have "load_checkpoint draw fp w = (Inr (length (heap w)), w\<lparr>rng := g, heap := heap w @ [m]\<rparr>)"
    by (simp add: load_checkpoint_rebuilt torch_load_def assms(1) r d)
  with N m(2) loaded_features [OF m(1)] Network_features [OF N] show ?thesis
    by (intro exI [of _ m] exI [of _ m0] exI [of _ g]) simp
qed

section \<open>The claims\<close>




text \<open>
  C2: when some array of the bundle has a size that differs from the size of the model's
  parameter of the same name, \<^verbatim>\<open>load_state_dict\<close> fails: it raises the
  \<^verbatim>\<open>RuntimeError\<close> that carries the collected messages, and the size mismatch message
  for that parameter (its name, the size in the bundle, the size in the model) is among
  them.
\<close>

theorem load_state_dict_size_mismatch:
  assumes "(k, p) \<in> set (state_dict (heap w ! model))"
    and "map_of sd k = Some t"
    and "shape t \<noteq> shape p"
  shows "load_state_dict model (PStateDict sd) w = Inl (RuntimeError (error_msgs (heap w ! model) sd))
       \<and> SizeMismatch k (shape t) (shape p) \<in> set (error_msgs (heap w ! model) sd)"
proof -
  from size_mismatch_reported [OF assms]
  have mem: "SizeMismatch k (shape t) (shape p) \<in> set (error_msgs (heap w ! model) sd)"
    by (simp add: error_msgs_def Let_def)
  then have "error_msgs (heap w ! model) sd \<noteq> []" by auto
  then show ?thesis using mem by (simp add: loaded_def Let_def)
qed

text \<open>
  The notebook's own run: a model built with hidden widths \<^verbatim>\<open>[400, 200, 100]\<close> and the
  state dict of a model built with \<^verbatim>\<open>[512, 256, 128]\<close>. The messages are the seven
  size mismatches of the recorded \<^verbatim>\<open>RuntimeError\<close>, in its order; \<^verbatim>\<open>output.bias\<close>
  has the same size in both and is not among them.
\<close>

theorem load_state_dict_size_mismatch_witness:
  "(''hidden_layers.0.weight'', \<lparr>shape = [400, 784], storage = 0::nat\<rparr>)
     \<in> set (state_dict \<lparr>hidden_layers = fst (linears (\<lambda>g s. (0, g)) 784 [400, 200, 100] 0),
                         output_layer = fst (Linear (\<lambda>g s. (0, g)) 100 10 0)\<rparr>)
   \<and> map_of (state_dict \<lparr>hidden_layers = fst (linears (\<lambda>g s. (0::nat, g)) 784 [512, 256, 128] 0),
                          output_layer = fst (Linear (\<lambda>g s. (0, g)) 128 10 0)\<rparr>) ''hidden_layers.0.weight''
       = Some \<lparr>shape = [512, 784], storage = 0\<rparr>
   \<and> load_state_dict 0
        (PStateDict (state_dict \<lparr>hidden_layers = fst (linears (\<lambda>g s. (0::nat, g)) 784 [512, 256, 128] 0),
                                 output_layer = fst (Linear (\<lambda>g s. (0, g)) 128 10 0)\<rparr>))
        \<lparr>files = Map.empty,
         heap = [\<lparr>hidden_layers = fst (linears (\<lambda>g s. (0, g)) 784 [400, 200, 100] 0),
                  output_layer = fst (Linear (\<lambda>g s. (0, g)) 100 10 0)\<rparr>],
         rng = 0\<rparr>
       = Inl (RuntimeError
          [SizeMismatch ''hidden_layers.0.weight'' [512, 784] [400, 784],
           SizeMismatch ''hidden_layers.0.bias'' [512] [400],
           SizeMismatch ''hidden_layers.1.weight'' [256, 512] [200, 400],
           SizeMismatch ''hidden_layers.1.bias'' [256] [200],
           SizeMismatch ''hidden_layers.2.weight'' [128, 256] [100, 200],
           SizeMismatch ''hidden_layers.2.bias'' [128] [100],
           SizeMismatch ''output.weight'' [10, 128] [10, 100]])"
proof -
  define m400 :: "nat network" where
    "m400 = \<lparr>hidden_layers = fst (linears (\<lambda>g s. (0, g)) 784 [400, 200, 100] 0),
             output_layer = fst (Linear (\<lambda>g s. (0, g)) 100 10 0)\<rparr>"
  define sd512 :: "nat state_dict" where
    "sd512 = state_dict \<lparr>hidden_layers = fst (linears (\<lambda>g s. (0::nat, g)) 784 [512, 256, 128] 0),
                          output_layer = fst (Linear (\<lambda>g s. (0, g)) 128 10 0)\<rparr>"
  define w :: "nat world" where "w = \<lparr>files = Map.empty, heap = [m400], rng = 0\<rparr>"
  have s: "str 0 = ''0''" "str (Suc 0) = ''1''" "str (Suc (Suc 0)) = ''2''"
    by (simp_all add: str.simps)
  have sd: "sd512 =
     [(''hidden_layers.0.weight'', \<lparr>shape = [512, 784], storage = 0\<rparr>),
      (''hidden_layers.0.bias'', \<lparr>shape = [512], storage = 0\<rparr>),
      (''hidden_layers.1.weight'', \<lparr>shape = [256, 512], storage = 0\<rparr>),
      (''hidden_layers.1.bias'', \<lparr>shape = [256], storage = 0\<rparr>),
      (''hidden_layers.2.weight'', \<lparr>shape = [128, 256], storage = 0\<rparr>),
      (''hidden_layers.2.bias'', \<lparr>shape = [128], storage = 0\<rparr>),
      (''output.weight'', \<lparr>shape = [10, 128], storage = 0\<rparr>),
      (''output.bias'', \<lparr>shape = [10], storage = 0\<rparr>)]"
    by (simp add: sd512_def state_dict_def layer_items_def Linear_def s)
  have own: "state_dict m400 =
     [(''hidden_layers.0.weight'', \<lparr>shape = [400, 784], storage = 0\<rparr>),
      (''hidden_layers.0.bias'', \<lparr>shape = [400], storage = 0\<rparr>),
      (''hidden_layers.1.weight'', \<lparr>shape = [200, 400], storage = 0\<rparr>),
      (''hidden_layers.1.bias'', \<lparr>shape = [200], storage = 0\<rparr>),
      (''hidden_layers.2.weight'', \<lparr>shape = [100, 200], storage = 0\<rparr>),
      (''hidden_layers.2.bias'', \<lparr>shape = [100], storage = 0\<rparr>),
      (''output.weight'', \<lparr>shape = [10, 100], storage = 0\<rparr>),
      (''output.bias'', \<lparr>shape = [10], storage = 0\<rparr>)]"
    by (simp add: m400_def state_dict_def layer_items_def Linear_def s)
  have h1: "(''hidden_layers.0.weight'', \<lparr>shape = [400, 784], storage = 0::nat\<rparr>)
      \<in> set (state_dict (heap w ! 0))"
    by (simp add: w_def own)
  have h2: "map_of sd512 ''hidden_layers.0.weight'' = Some \<lparr>shape = [512, 784], storage = 0\<rparr>"
    by (simp add: sd)
  have h3: "shape \<lparr>shape = [512, 784], storage = 0::nat\<rparr> \<noteq> shape \<lparr>shape = [400, 784], storage = 0::nat\<rparr>"
    by simp
  have msgs: "error_msgs m400 sd512 =
          [SizeMismatch ''hidden_layers.0.weight'' [512, 784] [400, 784],
           SizeMismatch ''hidden_layers.0.bias'' [512] [400],
           SizeMismatch ''hidden_layers.1.weight'' [256, 512] [200, 400],
           SizeMismatch ''hidden_layers.1.bias'' [256] [200],
           SizeMismatch ''hidden_layers.2.weight'' [128, 256] [100, 200],
           SizeMismatch ''hidden_layers.2.bias'' [128] [100],
           SizeMismatch ''output.weight'' [10, 128] [10, 100]]"
    unfolding error_msgs_def Let_def size_mismatches_def own by (simp add: sd)
  have "(''hidden_layers.0.weight'', \<lparr>shape = [400, 784], storage = 0::nat\<rparr>)
       \<in> set (state_dict m400)
     \<and> map_of sd512 ''hidden_layers.0.weight'' = Some \<lparr>shape = [512, 784], storage = 0\<rparr>
     \<and> load_state_dict 0 (PStateDict sd512) \<lparr>files = Map.empty, heap = [m400], rng = 0\<rparr>
       = Inl (RuntimeError
          [SizeMismatch ''hidden_layers.0.weight'' [512, 784] [400, 784],
           SizeMismatch ''hidden_layers.0.bias'' [512] [400],
           SizeMismatch ''hidden_layers.1.weight'' [256, 512] [200, 400],
           SizeMismatch ''hidden_layers.1.bias'' [256] [200],
           SizeMismatch ''hidden_layers.2.weight'' [128, 256] [100, 200],
           SizeMismatch ''hidden_layers.2.bias'' [128] [100],
           SizeMismatch ''output.weight'' [10, 128] [10, 100]])"
    using load_state_dict_size_mismatch [OF h1 h2 h3] h1 h2
    by (simp add: msgs w_def del: load_state_dict.simps)
  then show ?thesis unfolding m400_def sd512_def .
qed

text \<open>
  C4: reconstruction has two ordered phases. Once the file is read and the three
  descriptor entries are found, \<open>load_checkpoint\<close> first calls the constructor on these
  three values alone; if the constructor fails, that is the result, whatever the
  \<^verbatim>\<open>state_dict\<close> entry holds, and the caller's world is as it was. Only then is the
  \<^verbatim>\<open>state_dict\<close> entry read and loaded into the object just constructed, at a new
  handle; if this fails, the exception is the result, and what the constructor has drawn
  from the random generator stays drawn. No existing model object is consulted: with any
  other heap \<open>h\<close> in place of the caller's objects, the call returns the same model or
  the same exception.
\<close>

theorem load_checkpoint_two_phases:
  assumes "torch_load fp w = Inr ck"
    and "getitem ck ''input_size'' = Inr v1"
    and "getitem ck ''output_size'' = Inr v2"
    and "getitem ck ''hidden_layers'' = Inr v3"
  shows "load_checkpoint draw fp w =
     (case Network draw v1 v2 v3 (rng w) of
        Inl e \<Rightarrow> (Inl e, w)
      | Inr (m0, g) \<Rightarrow>
         (case getitem ck ''state_dict'' of
            Inl e \<Rightarrow> (Inl e, w\<lparr>rng := g\<rparr>)
          | Inr v4 \<Rightarrow>
             (case load_state_dict (length (heap w)) v4 (w\<lparr>rng := g, heap := heap w @ [m0]\<rparr>) of
                Inl e \<Rightarrow> (Inl e, w\<lparr>rng := g\<rparr>)
              | Inr w2 \<Rightarrow> (Inr (length (heap w)), w2))))
    \<and> returned (load_checkpoint draw fp (w\<lparr>heap := h\<rparr>)) = returned (load_checkpoint draw fp w)"
proof (rule conjI)
  show "returned (load_checkpoint draw fp (w\<lparr>heap := h\<rparr>)) = returned (load_checkpoint draw fp w)"
    by (rule returned_depends_on_file) simp
  show "load_checkpoint draw fp w =
     (case Network draw v1 v2 v3 (rng w) of
        Inl e \<Rightarrow> (Inl e, w)
      | Inr (m0, g) \<Rightarrow>
         (case getitem ck ''state_dict'' of
            Inl e \<Rightarrow> (Inl e, w\<lparr>rng := g\<rparr>)
          | Inr v4 \<Rightarrow>
             (case load_state_dict (length (heap w)) v4 (w\<lparr>rng := g, heap := heap w @ [m0]\<rparr>) of
                Inl e \<Rightarrow> (Inl e, w\<lparr>rng := g\<rparr>)
              | Inr w2 \<Rightarrow> (Inr (length (heap w)), w2))))"
    by (simp add: load_checkpoint_def new_def assms split: sum.split prod.split
          del: Network.simps load_state_dict.simps)
qed

text \<open>
  A record whose \<^verbatim>\<open>hidden_layers\<close> entry is an integer and which has no
  \<^verbatim>\<open>state_dict\<close> entry: the constructor's \<^verbatim>\<open>TypeError\<close> is raised, not the
  \<^verbatim>\<open>KeyError\<close> of the missing state dict, and the caller's world is unchanged.
\<close>

theorem load_checkpoint_two_phases_witness:
  "torch_load ''net.pth'' \<lparr>files = [''net.pth'' \<mapsto> [(''input_size'', PInt 2), (''output_size'', PInt 1),
                                   (''hidden_layers'', PInt 3)]],
                          heap = [\<lparr>hidden_layers = [],
                                   output_layer = \<lparr>in_features = 7, out_features = 7,
                                                    weight = \<lparr>shape = [7, 7], storage = 5::nat\<rparr>,
                                                    bias = \<lparr>shape = [7], storage = 5\<rparr>\<rparr>\<rparr>],
                          rng = 0\<rparr>
     = Inr [(''input_size'', PInt 2), (''output_size'', PInt 1), (''hidden_layers'', PInt 3)]
   \<and> getitem [(''input_size'', PInt 2), (''output_size'', PInt 1), (''hidden_layers'', PInt (3::int))]
        ''state_dict'' = (Inl (KeyError ''state_dict'') :: error + nat pyval)
   \<and> load_checkpoint (\<lambda>g s. (0, Suc g)) ''net.pth''
        \<lparr>files = [''net.pth'' \<mapsto> [(''input_size'', PInt 2), (''output_size'', PInt 1),
                                   (''hidden_layers'', PInt 3)]],
         heap = [\<lparr>hidden_layers = [],
                  output_layer = \<lparr>in_features = 7, out_features = 7,
                                   weight = \<lparr>shape = [7, 7], storage = 5::nat\<rparr>,
                                   bias = \<lparr>shape = [7], storage = 5\<rparr>\<rparr>\<rparr>],
         rng = 0\<rparr>
     = (Inl TypeError,
        \<lparr>files = [''net.pth'' \<mapsto> [(''input_size'', PInt 2), (''output_size'', PInt 1),
                                   (''hidden_layers'', PInt 3)]],
         heap = [\<lparr>hidden_layers = [],
                  output_layer = \<lparr>in_features = 7, out_features = 7,
                                   weight = \<lparr>shape = [7, 7], storage = 5::nat\<rparr>,
                                   bias = \<lparr>shape = [7], storage = 5\<rparr>\<rparr>\<rparr>],
         rng = 0\<rparr>)"
proof -
  define ck :: "nat pydict" where
    "ck = [(''input_size'', PInt 2), (''output_size'', PInt 1), (''hidden_layers'', PInt 3)]"
  define w :: "nat world" where
    "w = \<lparr>files = [''net.pth'' \<mapsto> ck],
          heap = [\<lparr>hidden_layers = [],
                   output_layer = \<lparr>in_features = 7, out_features = 7,
                                    weight = \<lparr>shape = [7, 7], storage = 5::nat\<rparr>,
                                    bias = \<lparr>shape = [7], storage = 5\<rparr>\<rparr>\<rparr>],
          rng = 0\<rparr>"
  have l: "torch_load ''net.pth'' w = Inr ck" by (simp add: torch_load_def w_def)
  have g: "getitem ck ''input_size'' = Inr (PInt 2)" "getitem ck ''output_size'' = Inr (PInt 1)"
    "getitem ck ''hidden_layers'' = Inr (PInt 3)"
    by (simp_all add: getitem_def ck_def)
  have k: "getitem ck ''state_dict'' = Inl (KeyError ''state_dict'')"
    by (simp add: getitem_def ck_def)
  from load_checkpoint_two_phases [OF l g, of "\<lambda>g s. (0, Suc g)"]
  have "load_checkpoint (\<lambda>g s. (0, Suc g)) ''net.pth'' w = (Inl TypeError, w)" by simp
  with l k have "torch_load ''net.pth'' w = Inr ck
    \<and> getitem ck ''state_dict'' = Inl (KeyError ''state_dict'')
    \<and> load_checkpoint (\<lambda>g s. (0, Suc g)) ''net.pth'' w = (Inl TypeError, w)" by simp
  then show ?thesis unfolding w_def ck_def .
qed

text \<open>
  C5: every persisted checkpoint record is a mapping with exactly the keys \<^verbatim>\<open>input_size\<close>
  (an integer), \<^verbatim>\<open>output_size\<close> (an integer), \<^verbatim>\<open>hidden_layers\<close> (the integers
  \<^verbatim>\<open>out_features\<close> of the model's hidden layers, front to back) and \<^verbatim>\<open>state_dict\<close>
  (the model's state dict); this record is what the cell writes to \<^verbatim>\<open>checkpoint.pth\<close>.
\<close>

theorem checkpoint_record_layout:
  "map fst (checkpoint model) = [''input_size'', ''output_size'', ''hidden_layers'', ''state_dict'']
   \<and> getitem (checkpoint model) ''input_size'' = Inr (PInt 784)
   \<and> getitem (checkpoint model) ''output_size'' = Inr (PInt 10)
   \<and> getitem (checkpoint model) ''hidden_layers'' = Inr (PList (map out_features (hidden_layers model)))
   \<and> getitem (checkpoint model) ''state_dict'' = Inr (PStateDict (state_dict model))
   \<and> files (save_checkpoint a w) ''checkpoint.pth'' = Some (checkpoint (heap w ! a))"
  by (simp add: getitem_checkpoint) (simp add: checkpoint_def save_checkpoint_def torch_save_def)

text \<open>
  C6 does not hold as stated: nothing checks the bundle when a record is saved. A record
  whose bundle lacks the bias of the output layer, so that it is not the bundle its
  descriptor implies, is written to the file and read back as it was.
\<close>

theorem incomplete_bundle_is_persisted:
  "map_of [(''output.weight'', \<lparr>shape = [1, 2], storage = 0::nat\<rparr>)] ''output.bias'' = None
   \<and> \<not> valid_bundle 2 1 [] [(''output.weight'', \<lparr>shape = [1, 2], storage = 0::nat\<rparr>)]
   \<and> torch_load ''checkpoint.pth''
        (torch_save [(''input_size'', PInt 2), (''output_size'', PInt 1),
                     (''hidden_layers'', PList []),
                     (''state_dict'', PStateDict [(''output.weight'', \<lparr>shape = [1, 2], storage = 0::nat\<rparr>)])]
           ''checkpoint.pth'' \<lparr>files = Map.empty, heap = [], rng = 0\<rparr>)
     = Inr [(''input_size'', PInt 2), (''output_size'', PInt 1),
            (''hidden_layers'', PList []),
            (''state_dict'', PStateDict [(''output.weight'', \<lparr>shape = [1, 2], storage = 0::nat\<rparr>)])]"
  by (simp add: torch_load_save valid_bundle_def shapes_of_def param_shapes_def)

text \<open>
  C6, as amended: saving performs no completeness check and does not fail. Whatever
  bundle a record holds, \<^verbatim>\<open>torch.save\<close> writes the record as given, touches no model
  object, and \<^verbatim>\<open>torch.load\<close> returns that record. The bundle that the notebook's cell
  saves is the model's own state dict, which has a weight and a bias entry for every
  hidden layer and for the output layer.
\<close>

theorem save_has_no_completeness_check:
  "files (torch_save ck fp w) fp = Some ck
   \<and> heap (torch_save ck fp w) = heap w
   \<and> torch_load fp (torch_save ck fp w) = Inr ck
   \<and> map fst (state_dict m) = map fst (param_shapes n_in n_out (map out_features (hidden_layers m)))
   \<and> getitem (checkpoint m) ''state_dict'' = Inr (PStateDict (state_dict m))"
  by (simp add: torch_load_save keys_state_dict [of m n_in n_out] getitem_checkpoint)
     (simp add: torch_save_def)




text \<open>
  C10 does not hold as stated: the constructor that \<open>load_checkpoint\<close> calls draws the
  initial numbers of the new tensors from the library's global random generator, which
  the caller can see. With a sampler that moves the generator on by one for every tensor,
  loading the checkpoint of a network with one hidden layer succeeds and leaves the
  generator four draws further, at 4 instead of 0.
\<close>

theorem load_checkpoint_advances_generator:
  "rng (snd (load_checkpoint (\<lambda>g s. (0, Suc g)) ''net.pth''
        \<lparr>files = [''net.pth'' \<mapsto>
                    [(''input_size'', PInt 2), (''output_size'', PInt 1), (''hidden_layers'', PList [3]),
                     (''state_dict'', PStateDict
                        [(''hidden_layers.0.weight'', \<lparr>shape = [3, 2], storage = 5::nat\<rparr>),
                         (''hidden_layers.0.bias'', \<lparr>shape = [3], storage = 6\<rparr>),
                         (''output.weight'', \<lparr>shape = [1, 3], storage = 7\<rparr>),
                         (''output.bias'', \<lparr>shape = [1], storage = 8\<rparr>)])]],
         heap = [],
         rng = 0\<rparr>)) = 4
   \<and> fst (load_checkpoint (\<lambda>g s. (0, Suc g)) ''net.pth''
        \<lparr>files = [''net.pth'' \<mapsto>
                    [(''input_size'', PInt 2), (''output_size'', PInt 1), (''hidden_layers'', PList [3]),
                     (''state_dict'', PStateDict
                        [(''hidden_layers.0.weight'', \<lparr>shape = [3, 2], storage = 5::nat\<rparr>),
                         (''hidden_layers.0.bias'', \<lparr>shape = [3], storage = 6\<rparr>),
                         (''output.weight'', \<lparr>shape = [1, 3], storage = 7\<rparr>),
                         (''output.bias'', \<lparr>shape = [1], storage = 8\<rparr>)])]],
         heap = [],
         rng = 0\<rparr>) = Inr 0"
proof -
  define sd :: "nat state_dict" where
    "sd = [(''hidden_layers.0.weight'', \<lparr>shape = [3, 2], storage = 5::nat\<rparr>),
           (''hidden_layers.0.bias'', \<lparr>shape = [3], storage = 6\<rparr>),
           (''output.weight'', \<lparr>shape = [1, 3], storage = 7\<rparr>),
           (''output.bias'', \<lparr>shape = [1], storage = 8\<rparr>)]"
  define ck :: "nat pydict" where
    "ck = [(''input_size'', PInt 2), (''output_size'', PInt 1), (''hidden_layers'', PList [3]),
           (''state_dict'', PStateDict sd)]"
  define w :: "nat world" where "w = \<lparr>files = [''net.pth'' \<mapsto> ck], heap = [], rng = 0\<rparr>"
  define draw :: "nat \<Rightarrow> int list \<Rightarrow> nat \<times> nat" where "draw = (\<lambda>g s. (0, Suc g))"
  define m0 :: "nat network" where
    "m0 = \<lparr>hidden_layers = [\<lparr>in_features = 2, out_features = 3,
                              weight = \<lparr>shape = [3, 2], storage = 0::nat\<rparr>,
                              bias = \<lparr>shape = [3], storage = 0\<rparr>\<rparr>],
           output_layer = \<lparr>in_features = 3, out_features = 1,
                            weight = \<lparr>shape = [1, 3], storage = 0\<rparr>,
                            bias = \<lparr>shape = [1], storage = 0\<rparr>\<rparr>\<rparr>"
  have s0: "str 0 = ''0''" by (simp add: str.simps)
  have g: "getitem ck ''input_size'' = Inr (PInt 2)" "getitem ck ''output_size'' = Inr (PInt 1)"
    "getitem ck ''hidden_layers'' = Inr (PList [3])" "getitem ck ''state_dict'' = Inr (PStateDict sd)"
    by (simp_all add: getitem_def ck_def)
  have N: "Network draw (PInt 2) (PInt 1) (PList [3]) 0 = Inr (m0, 4)"
    by (simp add: Linear_def m0_def draw_def)
  have own: "state_dict m0 =
     [(''hidden_layers.0.weight'', \<lparr>shape = [3, 2], storage = 0\<rparr>),
      (''hidden_layers.0.bias'', \<lparr>shape = [3], storage = 0\<rparr>),
      (''output.weight'', \<lparr>shape = [1, 3], storage = 0\<rparr>),
      (''output.bias'', \<lparr>shape = [1], storage = 0\<rparr>)]"
    by (simp add: m0_def state_dict_def layer_items_def s0)
  have e: "error_msgs m0 sd = []"
    unfolding error_msgs_def Let_def size_mismatches_def own by (simp add: sd_def)
  have d: "drawn draw 0 ck = 4"
    by (simp add: drawn_def g N del: Network.simps)
  have r: "\<exists>m. rebuilt draw 0 ck = Inr m"
    by (simp add: rebuilt_def g N loaded_def e del: Network.simps)
  then obtain m where m: "rebuilt draw 0 ck = Inr m" ..
  have "load_checkpoint draw ''net.pth'' w = (Inr 0, w\<lparr>rng := 4, heap := [m]\<rparr>)"
    by (simp add: load_checkpoint_rebuilt torch_load_def) (simp add: w_def m d)
  then have "rng (snd (load_checkpoint draw ''net.pth'' w)) = 4
      \<and> fst (load_checkpoint draw ''net.pth'' w) = Inr 0"
    by simp
  then show ?thesis unfolding w_def ck_def sd_def draw_def .
qed

text \<open>
  C10, as amended: \<open>load_checkpoint\<close> returns a new, independently owned model and
  changes no file and no existing model object. A failed call leaves every file and every
  object as it was; a successful call returns a handle that no existing object has,
  leaves every file and every existing object as it was, and adds the one new object.
  The only other state it changes is the global random generator, which the constructor
  moves on by its draws. What is returned depends on the contents of the file alone: not
  on the other files, not on the existing objects, not on the generator and not on the
  numbers drawn. On a file that holds a record with a bundle of the sizes its descriptor
  implies, the call succeeds, and the generator is left where the constructor left it.
\<close>

theorem load_checkpoint_frame:
  "(case load_checkpoint draw fp w of
      (Inl e, w') \<Rightarrow> files w' = files w \<and> heap w' = heap w
    | (Inr model, w') \<Rightarrow>
        model = length (heap w) \<and> files w' = files w \<and> heap w' = heap w @ [heap w' ! model])
   \<and> (files w2 fp = files w fp \<longrightarrow>
        returned (load_checkpoint draw2 fp w2) = returned (load_checkpoint draw fp w))
   \<and> (files w fp = Some ck
        \<and> getitem ck ''input_size'' = Inr (PInt n_in)
        \<and> getitem ck ''output_size'' = Inr (PInt n_out)
        \<and> getitem ck ''hidden_layers'' = Inr (PList hs)
        \<and> getitem ck ''state_dict'' = Inr (PStateDict sd)
        \<and> valid_bundle n_in n_out hs sd \<longrightarrow>
        (\<exists>m m0 g. Network draw (PInt n_in) (PInt n_out) (PList hs) (rng w) = Inr (m0, g)
              \<and> load_checkpoint draw fp w
                  = (Inr (length (heap w)), w\<lparr>rng := g, heap := heap w @ [m]\<rparr>)
              \<and> state_dict m = sd))"
proof (intro conjI impI)
  show "case load_checkpoint draw fp w of
      (Inl e, w') \<Rightarrow> files w' = files w \<and> heap w' = heap w
    | (Inr model, w') \<Rightarrow>
        model = length (heap w) \<and> files w' = files w \<and> heap w' = heap w @ [heap w' ! model]"
    by (simp add: load_checkpoint_rebuilt split: sum.split)
next
  assume "files w2 fp = files w fp"
  then show "returned (load_checkpoint draw2 fp w2) = returned (load_checkpoint draw fp w)"
    by (rule returned_depends_on_file)
next
  assume a: "files w fp = Some ck
        \<and> getitem ck ''input_size'' = Inr (PInt n_in)
        \<and> getitem ck ''output_size'' = Inr (PInt n_out)
        \<and> getitem ck ''hidden_layers'' = Inr (PList hs)
        \<and> getitem ck ''state_dict'' = Inr (PStateDict sd)
        \<and> valid_bundle n_in n_out hs sd"
  from load_checkpoint_valid [of w fp ck n_in n_out hs sd draw] a
  show "\<exists>m m0 g. Network draw (PInt n_in) (PInt n_out) (PList hs) (rng w) = Inr (m0, g)
              \<and> load_checkpoint draw fp w
                  = (Inr (length (heap w)), w\<lparr>rng := g, heap := heap w @ [m]\<rparr>)
              \<and> state_dict m = sd"
    by blast
qed

text \<open>
  A world with one model object and the checkpoint of a network with one hidden layer:
  the call returns the new handle 1, the old object and the file are as before, the
  generator has moved from 0 to 4, and a call with another sampler and another generator
  state, in a world with other objects and other files, returns the same model.
\<close>

theorem load_checkpoint_frame_witness:
  "valid_bundle 2 1 [3]
     [(''hidden_layers.0.weight'', \<lparr>shape = [3, 2], storage = 5::nat\<rparr>),
      (''hidden_layers.0.bias'', \<lparr>shape = [3], storage = 6\<rparr>),
      (''output.weight'', \<lparr>shape = [1, 3], storage = 7\<rparr>),
      (''output.bias'', \<lparr>shape = [1], storage = 8\<rparr>)]
   \<and> load_checkpoint (\<lambda>g s. (0, Suc g)) ''net.pth''
        \<lparr>files = [''net.pth'' \<mapsto>
                    [(''input_size'', PInt 2), (''output_size'', PInt 1), (''hidden_layers'', PList [3]),
                     (''state_dict'', PStateDict
                        [(''hidden_layers.0.weight'', \<lparr>shape = [3, 2], storage = 5::nat\<rparr>),
                         (''hidden_layers.0.bias'', \<lparr>shape = [3], storage = 6\<rparr>),
                         (''output.weight'', \<lparr>shape = [1, 3], storage = 7\<rparr>),
                         (''output.bias'', \<lparr>shape = [1], storage = 8\<rparr>)])]],
         heap = [\<lparr>hidden_layers = [],
                  output_layer = \<lparr>in_features = 7, out_features = 7,
                                   weight = \<lparr>shape = [7, 7], storage = 9\<rparr>,
                                   bias = \<lparr>shape = [7], storage = 9\<rparr>\<rparr>\<rparr>],
         rng = 0\<rparr>
     = (Inr 1,
        \<lparr>files = [''net.pth'' \<mapsto>
                    [(''input_size'', PInt 2), (''output_size'', PInt 1), (''hidden_layers'', PList [3]),
                     (''state_dict'', PStateDict
                        [(''hidden_layers.0.weight'', \<lparr>shape = [3, 2], storage = 5::nat\<rparr>),
                         (''hidden_layers.0.bias'', \<lparr>shape = [3], storage = 6\<rparr>),
                         (''output.weight'', \<lparr>shape = [1, 3], storage = 7\<rparr>),
                         (''output.bias'', \<lparr>shape = [1], storage = 8\<rparr>)])]],
         heap = [\<lparr>hidden_layers = [],
                  output_layer = \<lparr>in_features = 7, out_features = 7,
                                   weight = \<lparr>shape = [7, 7], storage = 9\<rparr>,
                                   bias = \<lparr>shape = [7], storage = 9\<rparr>\<rparr>\<rparr>,
                 \<lparr>hidden_layers = [\<lparr>in_features = 2, out_features = 3,
                                     weight = \<lparr>shape = [3, 2], storage = 5\<rparr>,
                                     bias = \<lparr>shape = [3], storage = 6\<rparr>\<rparr>],
                  output_layer = \<lparr>in_features = 3, out_features = 1,
                                   weight = \<lparr>shape = [1, 3], storage = 7\<rparr>,
                                   bias = \<lparr>shape = [1], storage = 8\<rparr>\<rparr>\<rparr>],
         rng = 4\<rparr>)
   \<and> returned (load_checkpoint (\<lambda>g s. (1, g + 2)) ''net.pth''
        \<lparr>files = [''other.pth'' \<mapsto> [], ''net.pth'' \<mapsto>
                    [(''input_size'', PInt 2), (''output_size'', PInt 1), (''hidden_layers'', PList [3]),
                     (''state_dict'', PStateDict
                        [(''hidden_layers.0.weight'', \<lparr>shape = [3, 2], storage = 5::nat\<rparr>),
                         (''hidden_layers.0.bias'', \<lparr>shape = [3], storage = 6\<rparr>),
                         (''output.weight'', \<lparr>shape = [1, 3], storage = 7\<rparr>),
                         (''output.bias'', \<lparr>shape = [1], storage = 8\<rparr>)])]],
         heap = [],
         rng = 11\<rparr>)
     = Inr \<lparr>hidden_layers = [\<lparr>in_features = 2, out_features = 3,
                               weight = \<lparr>shape = [3, 2], storage = 5\<rparr>,
                               bias = \<lparr>shape = [3], storage = 6\<rparr>\<rparr>],
            output_layer = \<lparr>in_features = 3, out_features = 1,
                             weight = \<lparr>shape = [1, 3], storage = 7\<rparr>,
                             bias = \<lparr>shape = [1], storage = 8\<rparr>\<rparr>\<rparr>"
proof -
  define sd :: "nat state_dict" where
    "sd = [(''hidden_layers.0.weight'', \<lparr>shape = [3, 2], storage = 5::nat\<rparr>),
           (''hidden_layers.0.bias'', \<lparr>shape = [3], storage = 6\<rparr>),
           (''output.weight'', \<lparr>shape = [1, 3], storage = 7\<rparr>),
           (''output.bias'', \<lparr>shape = [1], storage = 8\<rparr>)]"
  define ck :: "nat pydict" where
    "ck = [(''input_size'', PInt 2), (''output_size'', PInt 1), (''hidden_layers'', PList [3]),
           (''state_dict'', PStateDict sd)]"
  define old :: "nat network" where
    "old = \<lparr>hidden_layers = [],
            output_layer = \<lparr>in_features = 7, out_features = 7,
                             weight = \<lparr>shape = [7, 7], storage = 9\<rparr>,
                             bias = \<lparr>shape = [7], storage = 9\<rparr>\<rparr>\<rparr>"
  define new_model :: "nat network" where
    "new_model = \<lparr>hidden_layers = [\<lparr>in_features = 2, out_features = 3,
                                     weight = \<lparr>shape = [3, 2], storage = 5\<rparr>,
                                     bias = \<lparr>shape = [3], storage = 6\<rparr>\<rparr>],
                  output_layer = \<lparr>in_features = 3, out_features = 1,
                                   weight = \<lparr>shape = [1, 3], storage = 7\<rparr>,
                                   bias = \<lparr>shape = [1], storage = 8\<rparr>\<rparr>\<rparr>"
  define m0 :: "nat network" where
    "m0 = \<lparr>hidden_layers = [\<lparr>in_features = 2, out_features = 3,
                              weight = \<lparr>shape = [3, 2], storage = 0::nat\<rparr>,
                              bias = \<lparr>shape = [3], storage = 0\<rparr>\<rparr>],
           output_layer = \<lparr>in_features = 3, out_features = 1,
                            weight = \<lparr>shape = [1, 3], storage = 0\<rparr>,
                            bias = \<lparr>shape = [1], storage = 0\<rparr>\<rparr>\<rparr>"
  define draw :: "nat \<Rightarrow> int list \<Rightarrow> nat \<times> nat" where "draw = (\<lambda>g s. (0, Suc g))"
  define draw2 :: "nat \<Rightarrow> int list \<Rightarrow> nat \<times> nat" where "draw2 = (\<lambda>g s. (1, g + 2))"
  define w :: "nat world" where "w = \<lparr>files = [''net.pth'' \<mapsto> ck], heap = [old], rng = 0\<rparr>"
  define w2 :: "nat world" where
    "w2 = \<lparr>files = [''other.pth'' \<mapsto> [], ''net.pth'' \<mapsto> ck], heap = [], rng = 11\<rparr>"
  have s0: "str 0 = ''0''" by (simp add: str.simps)
  have v: "valid_bundle 2 1 [3] sd"
    by (simp add: valid_bundle_def shapes_of_def param_shapes_def sd_def s0)
  have f: "files w ''net.pth'' = Some ck" "files w2 ''net.pth'' = files w ''net.pth''"
    by (simp_all add: w_def w2_def)
  have g: "getitem ck ''input_size'' = Inr (PInt 2)" "getitem ck ''output_size'' = Inr (PInt 1)"
    "getitem ck ''hidden_layers'' = Inr (PList [3])" "getitem ck ''state_dict'' = Inr (PStateDict sd)"
    by (simp_all add: getitem_def ck_def)
  note T = load_checkpoint_frame [where draw = draw and fp = "''net.pth''" and w = w
      and ?w2.0 = w2 and ?draw2.0 = draw2 and ck = ck and n_in = 2 and n_out = 1
      and hs = "[3]" and sd = sd]
  from T have r: "returned (load_checkpoint draw2 ''net.pth'' w2)
      = returned (load_checkpoint draw ''net.pth'' w)"
    using f(2) by (elim conjE) (erule mp)
  from T have "\<exists>m m0 g. Network draw (PInt 2) (PInt 1) (PList [3]) (rng w) = Inr (m0, g)
        \<and> load_checkpoint draw ''net.pth'' w
            = (Inr (length (heap w)), w\<lparr>rng := g, heap := heap w @ [m]\<rparr>)
        \<and> state_dict m = sd"
    using f(1) g v by (elim conjE) (erule mp, intro conjI)
  then obtain m m0' g' where N': "Network draw (PInt 2) (PInt 1) (PList [3]) (rng w) = Inr (m0', g')"
    and m: "load_checkpoint draw ''net.pth'' w
        = (Inr (length (heap w)), w\<lparr>rng := g', heap := heap w @ [m]\<rparr>)"
    and s: "state_dict m = sd"
    by (elim exE conjE)
  have N: "Network draw (PInt 2) (PInt 1) (PList [3]) 0 = Inr (m0, 4)"
    by (simp add: Linear_def m0_def draw_def)
  have "rng w = 0" by (simp add: w_def)
  with N N' have g': "g' = 4" by simp
  have own: "state_dict m0 =
     [(''hidden_layers.0.weight'', \<lparr>shape = [3, 2], storage = 0\<rparr>),
      (''hidden_layers.0.bias'', \<lparr>shape = [3], storage = 0\<rparr>),
      (''output.weight'', \<lparr>shape = [1, 3], storage = 0\<rparr>),
      (''output.bias'', \<lparr>shape = [1], storage = 0\<rparr>)]"
    by (simp add: m0_def state_dict_def layer_items_def s0)
  have e: "error_msgs m0 sd = []"
    unfolding error_msgs_def Let_def size_mismatches_def own by (simp add: sd_def)
  have n: "rebuilt draw 0 ck = Inr new_model"
    by (simp add: rebuilt_def g N loaded_def e del: Network.simps)
       (simp add: m0_def new_model_def load_layer_def copy_param_def sd_def s0)
  have d: "drawn draw 0 ck = 4"
    by (simp add: drawn_def g N del: Network.simps)
  have "load_checkpoint draw ''net.pth'' w
      = (Inr (length (heap w)), w\<lparr>rng := 4, heap := heap w @ [new_model]\<rparr>)"
    by (simp add: load_checkpoint_rebuilt torch_load_def f) (simp add: w_def n d)
  with m have "heap (w\<lparr>rng := 4, heap := heap w @ [new_model]\<rparr>)
      = heap (w\<lparr>rng := g', heap := heap w @ [m]\<rparr>)"
    by simp
  then have "m = new_model" by simp
  with m r g' have "load_checkpoint draw ''net.pth'' w
        = (Inr 1, \<lparr>files = [''net.pth'' \<mapsto> ck], heap = [old, new_model], rng = 4\<rparr>)
    \<and> returned (load_checkpoint draw2 ''net.pth'' w2) = Inr new_model"
    by (simp add: returned_def w_def)
  with v have "valid_bundle 2 1 [3] sd
    \<and> load_checkpoint (\<lambda>g s. (0, Suc g)) ''net.pth''
          \<lparr>files = [''net.pth'' \<mapsto> ck], heap = [old], rng = 0\<rparr>
        = (Inr 1, \<lparr>files = [''net.pth'' \<mapsto> ck], heap = [old, new_model], rng = 4\<rparr>)
    \<and> returned (load_checkpoint (\<lambda>g s. (1, g + 2)) ''net.pth''
          \<lparr>files = [''other.pth'' \<mapsto> [], ''net.pth'' \<mapsto> ck], heap = [], rng = 11\<rparr>) = Inr new_model"
    by (simp add: w_def w2_def draw_def draw2_def)
  then show ?thesis unfolding ck_def sd_def old_def new_model_def .
qed

end
